theory Spec2Isabelle
  imports Main "HOL-Library.Word"
begin

section \<open>The blink program of \<open>main.c\<close>\<close>

subsection \<open>Compile-time configuration\<close>

text \<open>
  Line 1 of the source: \<^verbatim>\<open>#define _XTAL_FREQ 8000000\<close>.
\<close>

definition XTAL_FREQ :: nat where
  "XTAL_FREQ = 8000000"

text \<open>
  Lines 6 to 11 of the source, one pair per \<^verbatim>\<open>#pragma config\<close> line, in the order
  of the file: the setting's name and the symbol assigned to it.
\<close>

definition config_pragmas :: "(string \<times> string) list" where
  "config_pragmas =
     [(''FOSC'', ''INTRC_NOCLKOUT''),
      (''WDTE'', ''OFF''),
      (''PWRTE'', ''ON''),
      (''MCLRE'', ''ON''),
      (''CP'', ''OFF''),
      (''BOREN'', ''OFF'')]"

definition config :: "string \<Rightarrow> string option" where
  "config name = map_of config_pragmas name"

subsection \<open>Hardware state\<close>

type_synonym byte = "8 word"
type_synonym sfr_name = string

text \<open>
  Modelled from the spec: the special function registers \<^verbatim>\<open>TRISB\<close> and \<^verbatim>\<open>PORTB\<close>
  are declared by the device header \<^verbatim>\<open>sc.h\<close>, which is not part of the sources. The
  spec describes them as two memory-mapped hardware registers of one I/O bank, one bit per
  pin: the direction register and the output-value register. They are modelled as two
  distinct names of a register file of bytes; every other name stands for one of the
  device's other registers.
\<close>

definition TRISB :: sfr_name where
  "TRISB = ''TRISB''"

definition PORTB :: sfr_name where
  "PORTB = ''PORTB''"

text \<open>
  What the program does to the outside world, in the order it does it: a store to a
  register, or a call of the delay primitive with its argument (an \<^verbatim>\<open>unsigned long\<close>).
\<close>

datatype event = Write sfr_name byte | Delay "32 word"

record mcu =
  sfr :: "sfr_name \<Rightarrow> byte"
  trace :: "event list"

definition power_on :: "(sfr_name \<Rightarrow> byte) \<Rightarrow> mcu" where
  "power_on regs = \<lparr>sfr = regs, trace = []\<rparr>"

definition write_sfr :: "sfr_name \<Rightarrow> byte \<Rightarrow> mcu \<Rightarrow> mcu" where
  "write_sfr r v s = s\<lparr>sfr := (sfr s)(r := v), trace := trace s @ [Write r v]\<rparr>"

text \<open>
  Modelled from the spec: the intrinsic \<^verbatim>\<open>_delay\<close> comes with the toolchain and is not
  part of the sources. The spec describes it as a software-timed busy-wait, a CPU-bound
  spin that uses no hardware timer and has no effect on the registers. It is modelled by
  the record of the call and its argument alone.
\<close>

definition delay :: "32 word \<Rightarrow> mcu \<Rightarrow> mcu" where
  "delay n s = s\<lparr>trace := trace s @ [Delay n]\<rparr>"

subsection \<open>The function \<open>main\<close>\<close>

text \<open>
  The argument of both calls \<^verbatim>\<open>_delay(100000)\<close>, lines 20 and 22, read as a function of
  the value the macro \<^verbatim>\<open>_XTAL_FREQ\<close> is defined to: the argument is a literal, and the
  macro does not occur in it.
\<close>

definition delay_count :: "nat \<Rightarrow> 32 word" where
  "delay_count xtal_freq = 100000"

text \<open>Line 15: \<^verbatim>\<open>TRISB = 0x00;\<close>\<close>

definition init :: "mcu \<Rightarrow> mcu" where
  "init s = write_sfr TRISB 0x00 s"

text \<open>Lines 19 to 22, the body of the loop.\<close>

definition loop_body :: "mcu \<Rightarrow> mcu" where
  "loop_body s0 =
     (let s1 = write_sfr PORTB 0x01 s0;
          s2 = delay (delay_count XTAL_FREQ) s1;
          s3 = write_sfr PORTB 0x00 s2;
          s4 = delay (delay_count XTAL_FREQ) s3
      in s4)"

text \<open>
  Line 17: the controlling expression of \<^verbatim>\<open>while(1)\<close>. A C condition holds when its
  value is not zero.
\<close>

definition while_cond :: int where
  "while_cond = 1"

partial_function (option) while_loop :: "(mcu \<Rightarrow> bool) \<Rightarrow> (mcu \<Rightarrow> mcu) \<Rightarrow> mcu \<Rightarrow> mcu option" where
  "while_loop c b s = (if c s then while_loop c b (b s) else Some s)"

text \<open>
  \<open>main\<close> returns the final state if it returns at all; \<open>None\<close> is a run that never
  comes back.
\<close>

definition main :: "mcu \<Rightarrow> mcu option" where
  "main s = while_loop (\<lambda>_. while_cond \<noteq> 0) loop_body (init s)"

text \<open>The state when the loop body has been run \<open>n\<close> times after the initialisation.\<close>

definition after_iterations :: "nat \<Rightarrow> mcu \<Rightarrow> mcu" where
  "after_iterations n s = (loop_body ^^ n) (init s)"

subsection \<open>The same program, one statement at a time\<close>

text \<open>
  A program point is named by the source line of the statement about to run; \<open>L24\<close>
  is the closing brace of \<open>main\<close>, where the function would return.
\<close>

datatype pc = L15 | L19 | L20 | L21 | L22 | L24

text \<open>Where control goes when the loop condition of line 17 is evaluated.\<close>

definition loop_head :: pc where
  "loop_head = (if while_cond \<noteq> 0 then L19 else L24)"

fun step :: "pc \<times> mcu \<Rightarrow> (pc \<times> mcu) option" where
  "step (L15, s) = Some (loop_head, write_sfr TRISB 0x00 s)"
| "step (L19, s) = Some (L20, write_sfr PORTB 0x01 s)"
| "step (L20, s) = Some (L21, delay (delay_count XTAL_FREQ) s)"
| "step (L21, s) = Some (L22, write_sfr PORTB 0x00 s)"
| "step (L22, s) = Some (loop_head, delay (delay_count XTAL_FREQ) s)"
| "step (L24, s) = None"

fun exec :: "nat \<Rightarrow> pc \<times> mcu \<Rightarrow> (pc \<times> mcu) option" where
  "exec 0 c = Some c"
| "exec (Suc n) c = (case step c of None \<Rightarrow> None | Some c' \<Rightarrow> exec n c')"

text \<open>
  The configuration reached \<open>k\<close> statements after power-on, from any contents of the
  register file.
\<close>

definition state_at :: "nat \<Rightarrow> (sfr_name \<Rightarrow> byte) \<Rightarrow> (pc \<times> mcu) option" where
  "state_at k regs = exec k (L15, power_on regs)"

subsection \<open>Reading a trace\<close>

datatype level = HIGH | LOW

text \<open>The monitored pin is bit 0 of the port (\<^verbatim>\<open>RB0\<close> in the source's comments).\<close>

definition level_of :: "byte \<Rightarrow> level" where
  "level_of v = (if bit v 0 then HIGH else LOW)"

fun writes_to :: "sfr_name \<Rightarrow> event list \<Rightarrow> byte list" where
  "writes_to r [] = []"
| "writes_to r (Write r' v # es) = (if r' = r then v # writes_to r es else writes_to r es)"
| "writes_to r (Delay n # es) = writes_to r es"

fun written :: "event list \<Rightarrow> sfr_name list" where
  "written [] = []"
| "written (Write r v # es) = r # written es"
| "written (Delay n # es) = written es"

fun delays :: "event list \<Rightarrow> 32 word list" where
  "delays [] = []"
| "delays (Write r v # es) = delays es"
| "delays (Delay n # es) = n # delays es"

definition pin_sequence :: "event list \<Rightarrow> level list" where
  "pin_sequence es = map level_of (writes_to PORTB es)"

text \<open>An example register file: every register reads \<open>0xFF\<close> at power-on.\<close>

definition por_regs :: "sfr_name \<Rightarrow> byte" where
  "por_regs r = 0xFF"

text \<open>Another one: every register reads \<open>0x00\<close>.\<close>

definition zero_regs :: "sfr_name \<Rightarrow> byte" where
  "zero_regs r = 0x00"

text \<open>
  The events one pass through the loop body adds to the trace.
\<close>

definition body_events :: "event list" where
  "body_events = [Write PORTB 0x01, Delay 100000, Write PORTB 0x00, Delay 100000]"

text \<open>
  A sequence of levels that reads \<open>l\<close>, the other level, \<open>l\<close>, and so on: no two
  neighbours are equal.
\<close>

fun other :: "level \<Rightarrow> level" where
  "other HIGH = LOW"
| "other LOW = HIGH"

fun alternates_from :: "level \<Rightarrow> level list \<Rightarrow> bool" where
  "alternates_from l [] = True"
| "alternates_from l (x # xs) = (x = l \<and> alternates_from (other l) xs)"

text \<open>
  Each call of the delay primitive with the level the monitored pin is held at during
  the call: the level of the latest store to the port, if there has been one (\<open>cur\<close> is
  the level in force when the trace starts, if known).
\<close>

fun holds :: "level option \<Rightarrow> event list \<Rightarrow> (level \<times> 32 word) list" where
  "holds cur [] = []"
| "holds cur (Write r v # es) = holds (if r = PORTB then Some (level_of v) else cur) es"
| "holds cur (Delay n # es) =
     (case cur of None \<Rightarrow> holds cur es | Some l \<Rightarrow> (l, n) # holds cur es)"

text \<open>The delay counts spent at level \<open>l\<close>, added up.\<close>

fun hold_total :: "level \<Rightarrow> (level \<times> 32 word) list \<Rightarrow> nat" where
  "hold_total l [] = 0"
| "hold_total l ((l', n) # hs) = (if l' = l then unat n + hold_total l hs else hold_total l hs)"

text \<open>
  The direction of pin \<open>i\<close> under a value of the direction register, as the source's
  comment on line 15 has it (\<^verbatim>\<open>TRISB = 0x00; // Set all PORTB as output\<close>): a cleared
  bit makes the pin an output.
\<close>

definition pin_is_output :: "byte \<Rightarrow> nat \<Rightarrow> bool" where
  "pin_is_output dir i = (\<not> bit dir i)"

text \<open>
  The spec's reading of the direction register, for comparison: bit-per-pin,
  1 = output.
\<close>

definition spec_pin_is_output :: "byte \<Rightarrow> nat \<Rightarrow> bool" where
  "spec_pin_is_output dir i = bit dir i"

section \<open>Basic facts\<close>

lemma TRISB_neq_PORTB [simp]: "TRISB \<noteq> PORTB" "PORTB \<noteq> TRISB"
  by (simp_all add: TRISB_def PORTB_def)

lemma loop_head_L19 [simp]: "loop_head = L19"
  by (simp add: loop_head_def while_cond_def)

lemma writes_to_append: "writes_to r (xs @ ys) = writes_to r xs @ writes_to r ys"
  by (induction r xs rule: writes_to.induct) simp_all

lemma written_append: "written (xs @ ys) = written xs @ written ys"
  by (induction xs rule: written.induct) simp_all

lemma delays_append: "delays (xs @ ys) = delays xs @ delays ys"
  by (induction xs rule: delays.induct) simp_all

subsection \<open>The loop body and its iterations\<close>

lemma trace_loop_body: "trace (loop_body s) = trace s @ body_events"
  by (simp add: loop_body_def write_sfr_def delay_def delay_count_def body_events_def)

lemma sfr_loop_body: "sfr (loop_body s) = (sfr s)(PORTB := 0x00)"
  by (simp add: loop_body_def write_sfr_def delay_def)

lemma sfr_init: "sfr (init s) = (sfr s)(TRISB := 0x00)"
  by (simp add: init_def write_sfr_def)

lemma trace_init: "trace (init s) = trace s @ [Write TRISB 0x00]"
  by (simp add: init_def write_sfr_def)

lemma after_iterations_0: "after_iterations 0 s = init s"
  by (simp add: after_iterations_def)

lemma after_iterations_Suc: "after_iterations (Suc n) s = loop_body (after_iterations n s)"
  by (simp add: after_iterations_def)

lemma concat_replicate_snoc: "concat (replicate n x) @ x = x @ concat (replicate n x)"
  by (induction n) simp_all

lemma trace_after_iterations:
  "trace (after_iterations n s) = trace s @ Write TRISB 0x00 # concat (replicate n body_events)"
proof (induction n)
  case 0
  show ?case by (simp add: after_iterations_0 trace_init)
next
  case (Suc n)
  show ?case
    using concat_replicate_snoc [of n body_events]
    by (simp add: after_iterations_Suc trace_loop_body Suc.IH)
qed

lemma sfr_after_iterations:
  "sfr (after_iterations (Suc n) s) = (sfr s)(TRISB := 0x00, PORTB := 0x00)"
proof (induction n)
  case 0
  show ?case by (simp only: after_iterations_Suc after_iterations_0 sfr_loop_body sfr_init)
next
  case (Suc n)
  have "sfr (after_iterations (Suc (Suc n)) s) = (sfr (after_iterations (Suc n) s))(PORTB := 0x00)"
    by (simp only: after_iterations_Suc sfr_loop_body)
  then show ?case by (simp only: Suc.IH fun_upd_upd)
qed

subsection \<open>The loop never exits\<close>

lemma while_loop_exit:
  assumes "while_loop c b s = Some y"
  shows "\<not> c y"
proof (rule while_loop.raw_induct [where P = "\<lambda>c b s y. \<not> c y", OF _ assms])
  fix w :: "(mcu \<Rightarrow> bool) \<Rightarrow> (mcu \<Rightarrow> mcu) \<Rightarrow> mcu \<Rightarrow> mcu option" and c b s y
  assume IH: "\<And>c b s y. w c b s = Some y \<Longrightarrow> \<not> c y"
    and eq: "(if c s then w c b (b s) else Some s) = Some y"
  from eq have "(c s \<and> w c b (b s) = Some y) \<or> (\<not> c s \<and> s = y)"
    by (simp split: if_splits)
  then show "\<not> c y" using IH by blast
qed

lemma while_loop_True: "while_loop (\<lambda>_. True) b s = None"
proof (cases "while_loop (\<lambda>_. True) b s")
  case None
  then show ?thesis .
next
  case (Some y)
  then have "\<not> True" by (rule while_loop_exit)
  then show ?thesis by simp
qed

subsection \<open>Statement by statement\<close>

lemma exec_add: "exec (m + n) c = (case exec m c of None \<Rightarrow> None | Some c' \<Rightarrow> exec n c')"
proof (induction m arbitrary: c)
  case 0
  show ?case by simp
next
  case (Suc m)
  show ?case
  proof (cases "step c")
    case None
    then show ?thesis by simp
  next
    case (Some c')
    then show ?thesis using Suc.IH [of c'] by simp
  qed
qed

lemma exec_loop_body: "exec 4 (L19, s) = Some (L19, loop_body s)"
proof -
  have "exec (Suc (Suc (Suc (Suc 0)))) (L19, s) = Some (L19, loop_body s)"
    by (simp add: loop_body_def Let_def)
  moreover have "(4::nat) = Suc (Suc (Suc (Suc 0)))" by simp
  ultimately show ?thesis by (simp only:)
qed

lemma exec_iterations: "exec (4 * n) (L19, s) = Some (L19, (loop_body ^^ n) s)"
proof (induction n arbitrary: s)
  case 0
  show ?case by simp
next
  case (Suc n)
  have "exec (4 * Suc n) (L19, s) = exec (4 + 4 * n) (L19, s)" by simp
  also have "\<dots> = exec (4 * n) (L19, loop_body s)"
    by (simp only: exec_add exec_loop_body option.case)
  also have "\<dots> = Some (L19, (loop_body ^^ n) (loop_body s))" by (rule Suc.IH)
  finally show ?case by (simp only: funpow_Suc_right o_apply)
qed

lemma exec_init: "exec (Suc 0) (L15, s) = Some (L19, init s)"
  by (simp add: init_def)

lemma exec_head: "exec (Suc (4 * n)) (L15, s) = Some (L19, after_iterations n s)"
proof -
  have "exec (Suc 0 + 4 * n) (L15, s) = exec (4 * n) (L19, init s)"
    by (simp only: exec_add exec_init option.case)
  then show ?thesis by (simp add: after_iterations_def exec_iterations)
qed

lemma exec_split: "exec (Suc (4 * n) + r) (L15, s) = exec r (L19, after_iterations n s)"
  by (simp only: exec_add exec_head option.case)

lemma steps_shape:
  "k = 0 \<or> (\<exists>n. k = Suc (4 * n)) \<or> (\<exists>n. k = Suc (4 * n) + 1)
     \<or> (\<exists>n. k = Suc (4 * n) + 2) \<or> (\<exists>n. k = Suc (4 * n) + 3)"
  by presburger

lemma exec_high:
  "exec (Suc (4 * n) + 1) (L15, s) = Some (L20, write_sfr PORTB 0x01 (after_iterations n s))"
  by (simp only: exec_split) simp

lemma exec_hold:
  "exec (Suc (4 * n) + 2) (L15, s) =
     Some (L21, delay 100000 (write_sfr PORTB 0x01 (after_iterations n s)))"
proof -
  have "exec (Suc (Suc 0)) (L19, t) = Some (L21, delay 100000 (write_sfr PORTB 0x01 t))" for t
    by (simp add: delay_count_def)
  moreover have "(2::nat) = Suc (Suc 0)" by simp
  ultimately show ?thesis by (simp only: exec_split)
qed

lemma exec_low:
  "exec (Suc (4 * n) + 3) (L15, s) =
     Some (L22, write_sfr PORTB 0x00 (delay 100000 (write_sfr PORTB 0x01 (after_iterations n s))))"
proof -
  have "exec (Suc (Suc (Suc 0))) (L19, t) =
      Some (L22, write_sfr PORTB 0x00 (delay 100000 (write_sfr PORTB 0x01 t)))" for t
    by (simp add: delay_count_def)
  moreover have "(3::nat) = Suc (Suc (Suc 0))" by simp
  ultimately show ?thesis by (simp only: exec_split)
qed

lemma exec_cases [case_names entry head high hold low]:
  obtains
    (entry) "k = 0" "exec k (L15, s) = Some (L15, s)"
  | (head) n where "k = Suc (4 * n)" "exec k (L15, s) = Some (L19, after_iterations n s)"
  | (high) n where "k = Suc (4 * n) + 1"
      "exec k (L15, s) = Some (L20, write_sfr PORTB 0x01 (after_iterations n s))"
  | (hold) n where "k = Suc (4 * n) + 2"
      "exec k (L15, s) = Some (L21, delay 100000 (write_sfr PORTB 0x01 (after_iterations n s)))"
  | (low) n where "k = Suc (4 * n) + 3"
      "exec k (L15, s) =
         Some (L22, write_sfr PORTB 0x00 (delay 100000 (write_sfr PORTB 0x01 (after_iterations n s))))"
proof -
  consider "k = 0" | n where "k = Suc (4 * n)" | n where "k = Suc (4 * n) + 1"
    | n where "k = Suc (4 * n) + 2" | n where "k = Suc (4 * n) + 3"
    using steps_shape [of k] by blast
  then show thesis
  proof cases
    case 1
    then show ?thesis using entry by simp
  next
    case (2 n)
    then show ?thesis using head [of n] by (simp only: exec_head)
  next
    case (3 n)
    then show ?thesis using high [of n] by (simp only: exec_high)
  next
    case (4 n)
    then show ?thesis using hold [of n] by (simp only: exec_hold)
  next
    case (5 n)
    then show ?thesis using low [of n] by (simp only: exec_low)
  qed
qed

lemma sfr_after_iterations_TRISB: "sfr (after_iterations n s) TRISB = 0x00"
  by (cases n) (simp_all add: after_iterations_0 sfr_init sfr_after_iterations)

lemma sfr_after_iterations_other:
  "r \<noteq> TRISB \<Longrightarrow> r \<noteq> PORTB \<Longrightarrow> sfr (after_iterations n s) r = sfr s r"
  by (cases n) (simp_all add: after_iterations_0 sfr_init sfr_after_iterations)

lemma main_None: "main s = None"
  by (simp add: main_def while_cond_def while_loop_True)

section \<open>Configuration constants\<close>

text \<open>
  C9: the configuration pragmas select the internal RC oscillator without clock output,
  switch the watchdog timer off, the power-up timer on, the master-clear pin on, code
  protection off and brown-out reset off; the clock constant is 8,000,000 Hz and both
  calls of the delay primitive in the loop body pass 100,000.
\<close>

theorem config_constants:
  "config ''FOSC'' = Some ''INTRC_NOCLKOUT''
   \<and> config ''WDTE'' = Some ''OFF''
   \<and> config ''PWRTE'' = Some ''ON''
   \<and> config ''MCLRE'' = Some ''ON''
   \<and> config ''CP'' = Some ''OFF''
   \<and> config ''BOREN'' = Some ''OFF''
   \<and> map fst config_pragmas = [''FOSC'', ''WDTE'', ''PWRTE'', ''MCLRE'', ''CP'', ''BOREN'']
   \<and> XTAL_FREQ = 8000000
   \<and> delays (trace (loop_body s)) = delays (trace s) @ [100000, 100000]"
  by (simp add: config_def config_pragmas_def XTAL_FREQ_def trace_loop_body delays_append
      body_events_def)

section \<open>The loop has no exit\<close>

text \<open>
  C7: after the initialisation the program loops without end. \<open>main\<close> never returns,
  from any state; and however many statements have been executed, the program is at a
  program point other than the end of \<open>main\<close> and can execute one more.
\<close>

theorem main_never_returns:
  "main s = None
   \<and> (\<forall>k. \<exists>c c'. exec k (L15, s) = Some c \<and> fst c \<noteq> L24 \<and> step c = Some c')"
proof -
  have "\<exists>c c'. exec k (L15, s) = Some c \<and> fst c \<noteq> L24 \<and> step c = Some c'" for k
    by (cases k s rule: exec_cases) simp_all
  then show ?thesis by (simp add: main_None)
qed

section \<open>The output pin\<close>

lemma level_of_simps [simp]: "level_of 0x01 = HIGH" "level_of 0x00 = LOW"
  by (simp_all add: level_of_def)

lemma pin_sequence_append: "pin_sequence (xs @ ys) = pin_sequence xs @ pin_sequence ys"
  by (simp add: pin_sequence_def writes_to_append)

lemma pin_sequence_body: "pin_sequence body_events = [HIGH, LOW]"
  by (simp add: pin_sequence_def body_events_def)

lemma pin_sequence_iterations:
  "pin_sequence (concat (replicate n body_events)) = concat (replicate n [HIGH, LOW])"
  by (induction n) (simp_all add: pin_sequence_append pin_sequence_body, simp add: pin_sequence_def)

lemma pin_sequence_after_iterations:
  "pin_sequence (trace (after_iterations n (power_on regs))) = concat (replicate n [HIGH, LOW])"
proof -
  have "pin_sequence [Write TRISB 0x00] = []" by (simp add: pin_sequence_def)
  then have "pin_sequence (Write TRISB 0x00 # es) = pin_sequence es" for es
    using pin_sequence_append [of "[Write TRISB 0x00]" es] by simp
  then show ?thesis
    by (simp add: trace_after_iterations power_on_def pin_sequence_iterations)
qed

lemma alternates_iterations:
  "alternates_from HIGH (concat (replicate n [HIGH, LOW]) @ xs) = alternates_from HIGH xs"
  by (induction n) simp_all

lemma two_eq: "(2::nat) = Suc (Suc 0)"
  by simp

lemma four_eq: "(4::nat) = Suc (Suc (Suc (Suc 0)))"
  by simp

text \<open>
  C1, as the claim states it, fails: four passes through the loop store to the port eight
  times, so the monitored pin reads HIGH, LOW four times over, not HIGH, LOW, HIGH, LOW.
\<close>

theorem four_iterations_counterexample:
  "pin_sequence (trace (after_iterations 4 (power_on por_regs)))
     = [HIGH, LOW, HIGH, LOW, HIGH, LOW, HIGH, LOW]
   \<and> pin_sequence (trace (after_iterations 4 (power_on por_regs))) \<noteq> [HIGH, LOW, HIGH, LOW]"
  by (simp add: pin_sequence_after_iterations four_eq)

text \<open>
  C1, amended: the levels stored to the monitored pin alternate strictly, beginning with
  HIGH, and no two consecutive stores leave the pin unchanged. Each pass through the loop
  contributes HIGH then LOW: \<open>n\<close> passes give \<open>n\<close> times HIGH, LOW, and after any
  number of statements the levels stored so far read HIGH, LOW, HIGH, and so on. Two passes
  give HIGH, LOW, HIGH, LOW; four passes give that sequence twice.
\<close>

theorem pin_alternates:
  "pin_sequence (trace (after_iterations n (power_on regs))) = concat (replicate n [HIGH, LOW])
   \<and> (\<forall>k. \<exists>pc t. state_at k regs = Some (pc, t) \<and> alternates_from HIGH (pin_sequence (trace t)))
   \<and> pin_sequence (trace (after_iterations 2 (power_on regs))) = [HIGH, LOW, HIGH, LOW]
   \<and> pin_sequence (trace (after_iterations 4 (power_on regs)))
       = [HIGH, LOW, HIGH, LOW, HIGH, LOW, HIGH, LOW]"
proof -
  have "\<exists>pc t. state_at k regs = Some (pc, t) \<and> alternates_from HIGH (pin_sequence (trace t))" for k
  proof (cases k "power_on regs" rule: exec_cases)
    case entry
    then show ?thesis by (simp add: state_at_def power_on_def pin_sequence_def)
  next
    case (head n)
    then show ?thesis
      using alternates_iterations [of n "[]"]
      by (simp add: state_at_def pin_sequence_after_iterations)
  next
    case (high n)
    then show ?thesis
      using alternates_iterations [of n "[HIGH]"]
      by (simp add: state_at_def write_sfr_def pin_sequence_append pin_sequence_after_iterations)
         (simp add: pin_sequence_def)
  next
    case (hold n)
    then show ?thesis
      using alternates_iterations [of n "[HIGH]"]
      by (simp add: state_at_def write_sfr_def delay_def pin_sequence_append
          pin_sequence_after_iterations)
         (simp add: pin_sequence_def)
  next
    case (low n)
    then show ?thesis
      using alternates_iterations [of n "[HIGH, LOW]"]
      by (simp add: state_at_def write_sfr_def delay_def pin_sequence_append
          pin_sequence_after_iterations)
         (simp add: pin_sequence_def)
  qed
  then show ?thesis
    by (simp add: pin_sequence_after_iterations four_eq two_eq)
qed

text \<open>
  C2: in every pass through the loop the first store to the output register is \<open>0x01\<close>,
  bit 0 set and every other bit clear, and the second is \<open>0x00\<close>, every bit clear. This
  holds for the loop body from any state, and so for each pass of the run.
\<close>

theorem loop_body_writes:
  "\<exists>v1 v2. writes_to PORTB (trace (loop_body s)) = writes_to PORTB (trace s) @ [v1, v2]
      \<and> writes_to PORTB (trace (after_iterations (Suc n) s0))
          = writes_to PORTB (trace (after_iterations n s0)) @ [v1, v2]
      \<and> v1 = 0x01 \<and> (\<forall>i. bit v1 i = (i = 0))
      \<and> v2 = 0x00 \<and> (\<forall>i. \<not> bit v2 i)"
  by (simp add: after_iterations_Suc trace_loop_body writes_to_append body_events_def bit_1_iff)

section \<open>The direction register\<close>

text \<open>
  C3, as the claim states it, fails: the value stored to the direction register is
  \<open>0x00\<close>, not the value with every bit set, and under the reading "1 = output" pin 0
  is not an output.
\<close>

theorem direction_bits_counterexample:
  "trace (init (power_on por_regs)) = [Write TRISB 0x00]
   \<and> sfr (init (power_on por_regs)) TRISB \<noteq> 0xFF
   \<and> \<not> spec_pin_is_output (sfr (init (power_on por_regs)) TRISB) 0"
  by (simp add: trace_init sfr_init power_on_def spec_pin_is_output_def)

text \<open>
  C3, amended: the first statement of the program, before the loop is entered, stores
  \<open>0x00\<close> to the direction register: every bit is clear, and with a cleared bit
  meaning output (the source's own comment) each of the eight pins of the bank is an
  output.
\<close>

theorem direction_all_outputs:
  "state_at 1 regs = Some (L19, init (power_on regs))
   \<and> trace (init (power_on regs)) = [Write TRISB 0x00]
   \<and> sfr (init (power_on regs)) TRISB = 0x00
   \<and> (\<forall>i. \<not> bit (sfr (init (power_on regs)) TRISB) i)
   \<and> list_all (pin_is_output (sfr (init (power_on regs)) TRISB)) [0..<8]"
  using exec_init [of "power_on regs"]
  by (simp add: state_at_def trace_init sfr_init power_on_def pin_is_output_def list_all_iff)

lemma writes_to_TRISB_body: "writes_to TRISB body_events = []"
  by (simp add: body_events_def)

lemma writes_to_TRISB_iterations: "writes_to TRISB (concat (replicate n body_events)) = []"
  by (induction n) (simp_all add: writes_to_append writes_to_TRISB_body)

lemma trace_after_power_on:
  "trace (after_iterations n (power_on regs)) = Write TRISB 0x00 # concat (replicate n body_events)"
  by (simp add: trace_after_iterations power_on_def)

text \<open>
  C5: the direction register is stored to exactly once, by the first statement, before the
  loop. Before that statement the trace holds no store to it; after any further number of
  statements the trace still begins with that store, holds no other store to the register,
  and the register still reads the value stored. The loop body neither stores to the
  register nor changes it.
\<close>

theorem direction_written_once:
  "state_at 0 regs = Some (L15, power_on regs)
   \<and> writes_to TRISB (trace (power_on regs)) = []
   \<and> (\<forall>k. \<exists>pc t es. state_at (Suc k) regs = Some (pc, t)
         \<and> trace t = Write TRISB 0x00 # es
         \<and> writes_to TRISB (trace t) = [0x00]
         \<and> sfr t TRISB = 0x00)
   \<and> writes_to TRISB (trace (loop_body s)) = writes_to TRISB (trace s)
   \<and> sfr (loop_body s) TRISB = sfr s TRISB"
proof -
  have "\<exists>pc t es. state_at (Suc k) regs = Some (pc, t)
         \<and> trace t = Write TRISB 0x00 # es
         \<and> writes_to TRISB (trace t) = [0x00]
         \<and> sfr t TRISB = 0x00" for k
  proof (cases "Suc k" "power_on regs" rule: exec_cases)
    case entry
    then show ?thesis by simp
  next
    case (head n)
    then have "state_at (Suc k) regs = Some (L19, after_iterations n (power_on regs))"
      by (simp only: state_at_def)
    then show ?thesis
      by (simp add: writes_to_TRISB_iterations trace_after_power_on sfr_after_iterations_TRISB)
  next
    case (high n)
    then have "state_at (Suc k) regs =
        Some (L20, write_sfr PORTB 0x01 (after_iterations n (power_on regs)))"
      by (simp only: state_at_def)
    then show ?thesis
      by (simp add: write_sfr_def writes_to_append writes_to_TRISB_iterations
          trace_after_power_on sfr_after_iterations_TRISB)
  next
    case (hold n)
    then have "state_at (Suc k) regs =
        Some (L21, delay 100000 (write_sfr PORTB 0x01 (after_iterations n (power_on regs))))"
      by (simp only: state_at_def)
    then show ?thesis
      by (simp add: write_sfr_def delay_def writes_to_append writes_to_TRISB_iterations
          trace_after_power_on sfr_after_iterations_TRISB)
  next
    case (low n)
    then have "state_at (Suc k) regs =
        Some (L22, write_sfr PORTB 0x00 (delay 100000
          (write_sfr PORTB 0x01 (after_iterations n (power_on regs)))))"
      by (simp only: state_at_def)
    then show ?thesis
      by (simp add: write_sfr_def delay_def writes_to_append writes_to_TRISB_iterations
          trace_after_power_on sfr_after_iterations_TRISB)
  qed
  then show ?thesis
    by (simp add: state_at_def power_on_def trace_loop_body sfr_loop_body writes_to_append
        writes_to_TRISB_body)
qed

section \<open>The delays\<close>

text \<open>
  C4, as the claim states it, fails: the argument of the delay calls does not follow the
  clock constant. With the constant doubled the argument is the same, and not doubled.
\<close>

theorem delay_not_scaled_counterexample:
  "delay_count (2 * XTAL_FREQ) = delay_count XTAL_FREQ
   \<and> delay_count (2 * XTAL_FREQ) \<noteq> 2 * delay_count XTAL_FREQ"
  by (simp add: delay_count_def)

text \<open>
  C4, amended: whatever value the clock-frequency constant has, both delay calls of the
  loop body pass the literal 100,000; the argument does not depend on the constant.
\<close>

theorem delay_count_fixed:
  "delay_count f = 100000
   \<and> delay_count f = delay_count XTAL_FREQ
   \<and> delays (trace (loop_body s)) = delays (trace s) @ [delay_count f, delay_count f]"
  by (simp add: delay_count_def trace_loop_body delays_append body_events_def)

lemma holds_iterations:
  "holds cur (concat (replicate n body_events)) = concat (replicate n [(HIGH, 100000), (LOW, 100000)])"
  by (induction n arbitrary: cur) (simp_all add: body_events_def)

lemma hold_total_iterations:
  "hold_total l (concat (replicate n [(HIGH, 100000), (LOW, 100000)])) = n * 100000"
  by (induction n) (cases l; simp)+

text \<open>
  C6: in every pass through the loop the delay while the pin is high and the delay while
  the pin is low are called with the same count, 100,000. Over \<open>n\<close> passes the delays
  pair up as (HIGH, 100000), (LOW, 100000), so the counts spent high and spent low are
  equal, \<open>n\<close> times 100,000 each: half of the total, measured in delay counts.
\<close>

theorem equal_hold_counts:
  "holds None (trace (after_iterations n (power_on regs)))
     = concat (replicate n [(HIGH, 100000), (LOW, 100000)])
   \<and> hold_total HIGH (holds None (trace (after_iterations n (power_on regs)))) = n * 100000
   \<and> hold_total LOW (holds None (trace (after_iterations n (power_on regs)))) = n * 100000
   \<and> holds cur (drop (length (trace s)) (trace (loop_body s))) = [(HIGH, 100000), (LOW, 100000)]"
  by (simp add: trace_after_power_on holds_iterations hold_total_iterations trace_loop_body)
     (simp add: body_events_def)

section \<open>Effects and determinism\<close>

lemma written_body: "written body_events = [PORTB, PORTB]"
  by (simp add: body_events_def)

lemma written_iterations: "set (written (concat (replicate n body_events))) \<subseteq> {PORTB}"
  by (induction n) (simp_all add: written_append written_body)

lemma writes_to_PORTB_iterations:
  "list_all (\<lambda>v. v = 0x00 \<or> v = 0x01) (writes_to PORTB (concat (replicate n body_events)))"
  by (induction n) (simp_all add: writes_to_append body_events_def)

lemma power_on_simps: "sfr (power_on regs) = regs" "trace (power_on regs) = []"
  by (simp_all add: power_on_def)

text \<open>
  C8: the program reads nothing. After any number of statements, two runs from different
  contents of the register file are at the same program point with the same trace; the
  only registers stored to are the direction register and the output register, and every
  other register still holds what it held at power-on.
\<close>

theorem write_trace_deterministic:
  "\<exists>pc t1 t2. state_at k regs1 = Some (pc, t1) \<and> state_at k regs2 = Some (pc, t2)
      \<and> trace t1 = trace t2
      \<and> set (written (trace t1)) \<subseteq> {TRISB, PORTB}
      \<and> (\<forall>r. r \<noteq> TRISB \<and> r \<noteq> PORTB \<longrightarrow> sfr t1 r = regs1 r \<and> sfr t2 r = regs2 r)"
proof (cases k "power_on regs1" rule: exec_cases)
  case entry
  then show ?thesis by (simp add: state_at_def power_on_simps)
next
  case (head n)
  then have "state_at k regs1 = Some (L19, after_iterations n (power_on regs1))"
    and "state_at k regs2 = Some (L19, after_iterations n (power_on regs2))"
    by (simp_all only: state_at_def exec_head)
  then show ?thesis
    using written_iterations [of n]
    by (auto simp add: trace_after_power_on sfr_after_iterations_other power_on_simps)
next
  case (high n)
  then have "state_at k regs1 = Some (L20, write_sfr PORTB 0x01 (after_iterations n (power_on regs1)))"
    and "state_at k regs2 = Some (L20, write_sfr PORTB 0x01 (after_iterations n (power_on regs2)))"
    by (simp_all only: state_at_def exec_high)
  then show ?thesis
    using written_iterations [of n]
    by (auto simp add: write_sfr_def written_append trace_after_power_on
        sfr_after_iterations_other power_on_simps)
next
  case (hold n)
  then have "state_at k regs1 =
      Some (L21, delay 100000 (write_sfr PORTB 0x01 (after_iterations n (power_on regs1))))"
    and "state_at k regs2 =
      Some (L21, delay 100000 (write_sfr PORTB 0x01 (after_iterations n (power_on regs2))))"
    by (simp_all only: state_at_def exec_hold)
  then show ?thesis
    using written_iterations [of n]
    by (auto simp add: write_sfr_def delay_def written_append trace_after_power_on
        sfr_after_iterations_other power_on_simps)
next
  case (low n)
  then have "state_at k regs1 =
      Some (L22, write_sfr PORTB 0x00 (delay 100000
        (write_sfr PORTB 0x01 (after_iterations n (power_on regs1)))))"
    and "state_at k regs2 =
      Some (L22, write_sfr PORTB 0x00 (delay 100000
        (write_sfr PORTB 0x01 (after_iterations n (power_on regs2)))))"
    by (simp_all only: state_at_def exec_low)
  then show ?thesis
    using written_iterations [of n]
    by (auto simp add: write_sfr_def delay_def written_append trace_after_power_on
        sfr_after_iterations_other power_on_simps)
qed

text \<open>
  The theorem at seven statements, from the two example register files, for a third
  register.
\<close>

theorem write_trace_deterministic_witness:
  "\<exists>pc t1 t2. state_at 7 por_regs = Some (pc, t1) \<and> state_at 7 zero_regs = Some (pc, t2)
      \<and> trace t1 = trace t2
      \<and> set (written (trace t1)) \<subseteq> {TRISB, PORTB}
      \<and> ''PORTA'' \<noteq> TRISB \<and> ''PORTA'' \<noteq> PORTB
      \<and> sfr t1 ''PORTA'' = 0xFF \<and> sfr t2 ''PORTA'' = 0x00"
proof -
  have ne: "''PORTA'' \<noteq> TRISB \<and> ''PORTA'' \<noteq> PORTB"
    by (simp add: TRISB_def PORTB_def)
  obtain pc t1 t2 where
    st: "state_at 7 por_regs = Some (pc, t1)" "state_at 7 zero_regs = Some (pc, t2)"
      "trace t1 = trace t2" "set (written (trace t1)) \<subseteq> {TRISB, PORTB}"
    and fr: "\<forall>r. r \<noteq> TRISB \<and> r \<noteq> PORTB \<longrightarrow> sfr t1 r = por_regs r \<and> sfr t2 r = zero_regs r"
    using write_trace_deterministic [of 7 por_regs zero_regs] by blast
  from fr ne have "sfr t1 ''PORTA'' = 0xFF \<and> sfr t2 ''PORTA'' = 0x00"
    by (simp add: por_regs_def zero_regs_def)
  with st ne show ?thesis by blast
qed

section \<open>The value of the output register\<close>

lemma writes_to_PORTB_after:
  "writes_to PORTB (trace (after_iterations n (power_on regs))) =
     writes_to PORTB (concat (replicate n body_events))"
  by (simp add: trace_after_power_on)

text \<open>
  C10: the first store to the output register is the second statement executed. From
  then on, after any number of statements, the register holds \<open>0x00\<close> or \<open>0x01\<close>,
  bits 1 and up are clear, and every value the program has stored to it is \<open>0x00\<close>
  or \<open>0x01\<close>.
\<close>

theorem port_value_invariant:
  "(\<exists>t. state_at 1 regs = Some (L19, t) \<and> writes_to PORTB (trace t) = [])
   \<and> (\<forall>k. \<exists>pc t. state_at (Suc (Suc k)) regs = Some (pc, t)
        \<and> writes_to PORTB (trace t) \<noteq> []
        \<and> (sfr t PORTB = 0x00 \<or> sfr t PORTB = 0x01)
        \<and> (\<forall>i. \<not> bit (sfr t PORTB) (Suc i))
        \<and> list_all (\<lambda>v. v = 0x00 \<or> v = 0x01) (writes_to PORTB (trace t)))"
proof -
  have first: "\<exists>t. state_at 1 regs = Some (L19, t) \<and> writes_to PORTB (trace t) = []"
    using exec_init [of "power_on regs"] by (simp add: state_at_def trace_init power_on_def)
  have later: "\<exists>pc t. state_at (Suc (Suc k)) regs = Some (pc, t)
        \<and> writes_to PORTB (trace t) \<noteq> []
        \<and> (sfr t PORTB = 0x00 \<or> sfr t PORTB = 0x01)
        \<and> (\<forall>i. \<not> bit (sfr t PORTB) (Suc i))
        \<and> list_all (\<lambda>v. v = 0x00 \<or> v = 0x01) (writes_to PORTB (trace t))" for k
  proof (cases "Suc (Suc k)" "power_on regs" rule: exec_cases)
    case entry
    then show ?thesis by simp
  next
    case (head n)
    then obtain m where n: "n = Suc m" by (cases n) simp_all
    from head have "state_at (Suc (Suc k)) regs = Some (L19, after_iterations n (power_on regs))"
      by (simp only: state_at_def)
    then show ?thesis
      using writes_to_PORTB_iterations [of m]
      by (simp add: n writes_to_PORTB_after sfr_after_iterations writes_to_append)
         (simp add: body_events_def)
  next
    case (high n)
    then have "state_at (Suc (Suc k)) regs =
        Some (L20, write_sfr PORTB 0x01 (after_iterations n (power_on regs)))"
      by (simp only: state_at_def)
    then show ?thesis
      using writes_to_PORTB_iterations [of n]
      by (simp add: write_sfr_def writes_to_append writes_to_PORTB_after bit_1_iff)
  next
    case (hold n)
    then have "state_at (Suc (Suc k)) regs =
        Some (L21, delay 100000 (write_sfr PORTB 0x01 (after_iterations n (power_on regs))))"
      by (simp only: state_at_def)
    then show ?thesis
      using writes_to_PORTB_iterations [of n]
      by (simp add: write_sfr_def delay_def writes_to_append writes_to_PORTB_after bit_1_iff)
  next
    case (low n)
    then have "state_at (Suc (Suc k)) regs =
        Some (L22, write_sfr PORTB 0x00 (delay 100000
          (write_sfr PORTB 0x01 (after_iterations n (power_on regs)))))"
      by (simp only: state_at_def)
    then show ?thesis
      using writes_to_PORTB_iterations [of n]
      by (simp add: write_sfr_def delay_def writes_to_append writes_to_PORTB_after)
  qed
  from first later show ?thesis by blast
qed

end
